theory Spec2Isabelle
  imports Complex_Main "HOL-Library.Word"
begin

section \<open>JavaScript strings\<close>

text \<open>
  A JavaScript string is a sequence of UTF-16 code units. String literals of the
  source are ASCII; \<open>js\<close> turns such a literal into its code units.
\<close>

type_synonym jsstring = "16 word list"

definition js :: "string \<Rightarrow> jsstring" where
  "js s = map of_char s"

text \<open>
  \<open>String.prototype.trim\<close> removes, at both ends, the code units that ECMAScript
  calls WhiteSpace (TAB, VT, FF, ZWNBSP and the space separators) or LineTerminator
  (LF, CR, LS, PS).
\<close>

definition isWhiteSpace :: "16 word \<Rightarrow> bool" where
  "isWhiteSpace c \<longleftrightarrow>
     c = 0x0009 \<or> c = 0x000A \<or> c = 0x000B \<or> c = 0x000C \<or> c = 0x000D \<or> c = 0x0020
     \<or> c = 0x00A0 \<or> c = 0x1680 \<or> (0x2000 \<le> c \<and> c \<le> 0x200A)
     \<or> c = 0x2028 \<or> c = 0x2029 \<or> c = 0x202F \<or> c = 0x205F \<or> c = 0x3000 \<or> c = 0xFEFF"

definition trim :: "jsstring \<Rightarrow> jsstring" where
  "trim s = rev (dropWhile isWhiteSpace (rev (dropWhile isWhiteSpace s)))"

section \<open>JSON values\<close>

text \<open>
  What \<open>JSON.parse\<close> yields and what \<open>JSON.stringify\<close> consumes. An object is the
  list of its members in order; where a key is repeated in a parsed text the last
  member is the one the object keeps.
\<close>

datatype json =
    JNull
  | JBool bool
  | JNum real
  | JStr jsstring
  | JArr "json list"
  | JObj "(jsstring \<times> json) list"

section \<open>Entries and results\<close>

text \<open>
  Modelled from the spec: the type declarations of \<open>@/lib/legalSearch\<close> are not part
  of the sources at hand. Section 3 of the specification gives an Entry its fields and
  makes a Result ``all Entry fields plus'' \<open>score\<close> and \<open>highlights\<close>; the chat page
  declares the same eleven fields for what it receives. The fields \<open>id\<close>, \<open>type\<close>
  and \<open>keywords\<close> are written \<open>id'\<close>, \<open>type'\<close> and \<open>keywords'\<close>. A value of type
  \<open>'a result_scheme\<close> is a Result that may carry further fields. What \<open>buildAnswer\<close>
  returns is the pair \<open>{ answer, followUps }\<close> of section 6.
\<close>

record source_ref =
  label :: jsstring
  url :: jsstring

record entry =
  id' :: jsstring
  title :: jsstring
  type' :: jsstring
  region :: jsstring
  era :: jsstring
  summary :: jsstring
  excerpt :: jsstring
  keywords' :: "jsstring list"
  citations :: "jsstring list"
  sources :: "source_ref list"

record result = entry +
  score :: real
  highlights :: "jsstring list"

record built_answer =
  answer :: jsstring
  followUps :: "jsstring list"

section \<open>The route handler\<close>

text \<open>
  The handler imports \<open>retrieveLegalKnowledge\<close> and \<open>buildAnswer\<close> from
  \<open>@/lib/legalSearch\<close>. They enter the model as the two fields of a record, so that
  every statement about the handler holds whatever these two functions compute.
  Sections 5 and 6 of the specification make them pure functions that return
  normally. The limit is a count.
\<close>

record 'a legalSearch =
  retrieveLegalKnowledge :: "jsstring \<Rightarrow> nat \<Rightarrow> 'a result_scheme list"
  buildAnswer :: "jsstring \<Rightarrow> 'a result_scheme list \<Rightarrow> built_answer"

text \<open>
  A request, as far as the handler reads it: \<open>await request.json()\<close> either rejects
  (the \<open>catch\<close> branch) or yields the parsed body.
\<close>

datatype request = Unparseable | Parsed json

datatype js_error = TypeError

text \<open>
  The handler either returns a response, of which the model keeps the status and the
  JSON body, or an exception leaves it.
\<close>

datatype outcome = Responded nat json | Threw js_error

datatype 'a core_call =
    RetrieveLegalKnowledge jsstring nat
  | BuildAnswer jsstring "'a result_scheme list"

record 'a handled =
  outcome :: outcome
  calls :: "'a core_call list"

text \<open>
  \<open>payload.question\<close>: reading a property of \<open>null\<close> throws; an object has the
  property when it has such a member; a boolean, a number, a string and an array have
  no property of that name.
\<close>

fun payload_question :: "json \<Rightarrow> js_error + json option" where
  "payload_question JNull = Inl TypeError"
| "payload_question (JObj members) = Inr (map_of (rev members) (js ''question''))"
| "payload_question _ = Inr None"

text \<open>
  \<open>x?.trim()\<close>: \<open>undefined\<close> when \<open>x\<close> is \<open>undefined\<close> or \<open>null\<close>; the trimmed
  string when \<open>x\<close> is a string; any other value has no callable \<open>trim\<close>, and the
  call throws.
\<close>

fun optional_trim :: "json option \<Rightarrow> js_error + jsstring option" where
  "optional_trim None = Inr None"
| "optional_trim (Some JNull) = Inr None"
| "optional_trim (Some (JStr s)) = Inr (Some (trim s))"
| "optional_trim (Some _) = Inl TypeError"

definition bad_request :: "string \<Rightarrow> 'a handled" where
  "bad_request message =
     \<lparr>outcome = Responded 400 (JObj [(js ''error'', JStr (js message))]), calls = []\<rparr>"

text \<open>
  What \<open>NextResponse.json\<close> writes for the values the handler hands it. The handler
  passes \<open>result.citations\<close>, \<open>result.sources\<close> and \<open>result.highlights\<close> on as
  they are; an element of \<open>sources\<close> has the two fields of its declared type.
\<close>

definition source_json :: "source_ref \<Rightarrow> json" where
  "source_json s = JObj [(js ''label'', JStr (label s)), (js ''url'', JStr (url s))]"

definition result_json :: "'a result_scheme \<Rightarrow> json" where
  "result_json r = JObj
     [(js ''id'', JStr (id' r)),
      (js ''title'', JStr (title r)),
      (js ''summary'', JStr (summary r)),
      (js ''excerpt'', JStr (excerpt r)),
      (js ''citations'', JArr (map JStr (citations r))),
      (js ''sources'', JArr (map source_json (sources r))),
      (js ''score'', JNum (score r)),
      (js ''highlights'', JArr (map JStr (highlights r))),
      (js ''region'', JStr (region r)),
      (js ''era'', JStr (era r)),
      (js ''type'', JStr (type' r))]"

text \<open>
  The handler. \<open>now\<close> is what \<open>new Date().toISOString()\<close> reads when the response is
  built. Besides the outcome the model records the calls made to the core, in order.
\<close>

definition POST :: "'a legalSearch \<Rightarrow> jsstring \<Rightarrow> request \<Rightarrow> 'a handled" where
  "POST lib now request =
     (case request of
        Unparseable \<Rightarrow> bad_request ''Invalid JSON payload''
      | Parsed payload \<Rightarrow>
          (case payload_question payload of
             Inl e \<Rightarrow> \<lparr>outcome = Threw e, calls = []\<rparr>
           | Inr property \<Rightarrow>
               (case optional_trim property of
                  Inl e \<Rightarrow> \<lparr>outcome = Threw e, calls = []\<rparr>
                | Inr None \<Rightarrow> bad_request ''Question is required''
                | Inr (Some question) \<Rightarrow>
                    if question = [] then bad_request ''Question is required''
                    else
                      let results = retrieveLegalKnowledge lib question 5;
                          built = buildAnswer lib question results
                      in \<lparr>outcome = Responded 200 (JObj
                            [(js ''answer'', JStr (answer built)),
                             (js ''results'', JArr (map result_json results)),
                             (js ''followUps'', JArr (map JStr (followUps built))),
                             (js ''timestamp'', JStr now)]),
                          calls = [RetrieveLegalKnowledge question 5,
                                   BuildAnswer question results]\<rparr>)))"

section \<open>The core, from the specification\<close>

text \<open>
  Modelled from the spec: the module \<open>@/lib/legalSearch\<close> (knowledge base, Normalizer,
  Scoring Engine, Highlight Extractor, Result Ranker, Answer Composer, Follow-Up
  Generator) is not part of the sources at hand. Section 4 of the specification fixes
  the pipeline and leaves open the tokenisation, the scoring formula (section 9 asks
  for ``an interface'' here), the cutting of highlights, the wording of the answer and
  of the suggestions, and every constant. What is open is a field of \<open>components\<close>;
  what is fixed is defined below for every choice of the components.
  \<^item> \<open>normalize\<close>: section 4.1, from a text to its tokens;
  \<^item> \<open>scoreEntry\<close>: section 4.2, \<open>score(queryTokens, entry)\<close> (\<open>score\<close> itself is the
    field of a Result);
  \<^item> \<open>extractHighlights\<close>: section 4.4;
  \<^item> \<open>fallbackAnswer\<close> and \<open>composeTemplate\<close>: the fixed fallback statement and the
    templated paragraph of section 4.5;
  \<^item> \<open>phrasePrompt\<close> and \<open>maxFollowUps\<close>: the prompt phrased from a title and the cap
    of section 4.6.
\<close>

record components =
  normalize :: "jsstring \<Rightarrow> jsstring list"
  scoreEntry :: "jsstring list \<Rightarrow> entry \<Rightarrow> real"
  extractHighlights :: "jsstring list \<Rightarrow> entry \<Rightarrow> jsstring list"
  fallbackAnswer :: jsstring
  composeTemplate :: "jsstring \<Rightarrow> result list \<Rightarrow> jsstring"
  phrasePrompt :: "jsstring \<Rightarrow> jsstring"
  maxFollowUps :: nat

text \<open>
  Modelled from the spec: section 4.3, the Result Ranker. ``Sort by descending score;
  break ties by a stable deterministic secondary key (... original knowledge-base
  insertion order) ... Drop entries with score \<open>\<le> 0\<close>. Truncate to \<open>limit\<close>.''
  \<open>sort_key\<close> is a stable insertion sort.
\<close>

definition rank :: "(entry \<times> real) list \<Rightarrow> nat \<Rightarrow> (entry \<times> real) list" where
  "rank scored limit =
     take limit (filter (\<lambda>(e, s). 0 < s) (sort_key (\<lambda>(e, s). - s) scored))"

text \<open>
  Modelled from the spec: section 3, a Result is an Entry with its \<open>score\<close> and its
  \<open>highlights\<close>.
\<close>

definition make_result :: "entry \<Rightarrow> real \<Rightarrow> jsstring list \<Rightarrow> result" where
  "make_result e s hs = entry.extend e (result.fields s hs)"

text \<open>
  Modelled from the spec: section 2, the control flow ``query text \<open>\<rightarrow>\<close> Normalizer
  \<open>\<rightarrow>\<close> Scoring Engine (against every Knowledge Base entry) \<open>\<rightarrow>\<close> Result Ranker
  (top-K) \<open>\<rightarrow>\<close> Highlight Extractor (per ranked entry)'', behind the entry point
  \<open>retrieveLegalKnowledge(question, limit)\<close> of section 6.
\<close>

definition retrieveLegalKnowledge_spec ::
    "components \<Rightarrow> entry list \<Rightarrow> jsstring \<Rightarrow> nat \<Rightarrow> result list" where
  "retrieveLegalKnowledge_spec c kb question limit =
     (let queryTokens = normalize c question
      in map (\<lambda>(e, s). make_result e s (extractHighlights c queryTokens e))
           (rank (map (\<lambda>e. (e, scoreEntry c queryTokens e)) kb) limit))"

text \<open>
  Modelled from the spec: section 4.5, the Answer Composer. ``If \<open>results\<close> is empty,
  returns a fixed fallback statement''; otherwise a templated paragraph over the top
  one to three results.
\<close>

definition composeAnswer :: "components \<Rightarrow> jsstring \<Rightarrow> result list \<Rightarrow> jsstring" where
  "composeAnswer c query results =
     (if results = [] then fallbackAnswer c else composeTemplate c query (take 3 results))"

text \<open>
  Modelled from the spec: section 4.6 asks for a comparison that is
  ``case-insensitive'' and says no more. Two strings are case-insensitively equal when
  they have the same length and hold, at every position, the same code unit or the two
  cases of one of the letters A to Z. Letters outside A to Z have no second case here.
\<close>

definition isUpperLetter :: "16 word \<Rightarrow> bool" where
  "isUpperLetter c \<longleftrightarrow> 0x41 \<le> c \<and> c \<le> 0x5A"



text \<open>
  Modelled from the spec: the way the comparison is made, \<open>a.toLowerCase() ===
  b.toLowerCase()\<close>, with \<open>toLowerCase\<close> as it acts on the letters A to Z.
\<close>

definition toLowerCaseUnit :: "16 word \<Rightarrow> 16 word" where
  "toLowerCaseUnit c = (if isUpperLetter c then c + 0x20 else c)"

definition toLowerCase :: "jsstring \<Rightarrow> jsstring" where
  "toLowerCase s = map toLowerCaseUnit s"

text \<open>
  Modelled from the spec: section 4.6, the Follow-Up Generator. It ``selects entries
  that share \<open>type\<close>, \<open>region\<close>, or \<open>era\<close> with the top-ranked result but were not
  included in the top-K results ..., and phrases each as a short natural-language
  prompt referencing that entry's \<open>title\<close>. Excludes any suggestion textually identical
  (case-insensitive) to the original query. Caps the number of suggestions''. Without
  a top-ranked result there is no candidate.
\<close>

definition generateFollowUps ::
    "components \<Rightarrow> jsstring \<Rightarrow> result list \<Rightarrow> entry list \<Rightarrow> jsstring list" where
  "generateFollowUps c query results allEntries =
     (case results of
        [] \<Rightarrow> []
      | topResult # _ \<Rightarrow>
          take (maxFollowUps c)
            (filter (\<lambda>suggestion. toLowerCase suggestion \<noteq> toLowerCase query)
               (map (\<lambda>e. phrasePrompt c (title e))
                  (filter (\<lambda>e. (type' e = type' topResult \<or> region e = region topResult
                                \<or> era e = era topResult)
                               \<and> id' e \<notin> set (map id' results))
                     allEntries))))"

text \<open>
  Modelled from the spec: section 6, the entry point
  \<open>buildAnswer(question, results) \<rightarrow> { answer, followUps }\<close>.
\<close>

definition buildAnswer_spec ::
    "components \<Rightarrow> entry list \<Rightarrow> jsstring \<Rightarrow> result list \<Rightarrow> built_answer" where
  "buildAnswer_spec c kb question results =
     \<lparr>answer = composeAnswer c question results,
      followUps = generateFollowUps c question results kb\<rparr>"

text \<open>
  Modelled from the spec: the module as the handler imports it, for a choice of the
  components and a knowledge base.
\<close>

definition legalSearch_spec :: "components \<Rightarrow> entry list \<Rightarrow> unit legalSearch" where
  "legalSearch_spec c kb =
     \<lparr>retrieveLegalKnowledge = retrieveLegalKnowledge_spec c kb,
      buildAnswer = buildAnswer_spec c kb\<rparr>"

section \<open>A small instance\<close>

text \<open>
  One choice of the components and a knowledge base of four entries, on which the
  definitions above are evaluated: lowercased text, tokens of at least two code
  units with a few stopwords removed, field weights 4, 3, 2 and 1.
\<close>

definition sample_words :: "jsstring \<Rightarrow> jsstring list" where
  "sample_words s =
     filter (\<lambda>w. w \<noteq> [])
       (foldr (\<lambda>c acc. if isWhiteSpace c then [] # acc
                        else (case acc of [] \<Rightarrow> [[c]] | w # ws \<Rightarrow> (c # w) # ws)) s [])"

definition sample_normalize :: "jsstring \<Rightarrow> jsstring list" where
  "sample_normalize s =
     filter (\<lambda>w. 2 \<le> length w \<and> w \<notin> set (map js [''the'', ''of'', ''an'', ''is'']))
       (sample_words (toLowerCase (filter (\<lambda>c. c \<notin> set (js ''.,;:!?'')) s)))"

definition sample_occurrences :: "jsstring list \<Rightarrow> jsstring list \<Rightarrow> nat" where
  "sample_occurrences queryTokens fieldTokens =
     length (filter (\<lambda>t. t \<in> set queryTokens) fieldTokens)"

definition sample_score :: "jsstring list \<Rightarrow> entry \<Rightarrow> real" where
  "sample_score queryTokens e =
     of_nat (4 * sample_occurrences queryTokens (sample_normalize (title e))
           + 3 * sample_occurrences queryTokens (concat (map sample_normalize (keywords' e)))
           + 2 * sample_occurrences queryTokens (sample_normalize (summary e))
           + sample_occurrences queryTokens (sample_normalize (excerpt e)))"

definition sample_highlights :: "jsstring list \<Rightarrow> entry \<Rightarrow> jsstring list" where
  "sample_highlights queryTokens e =
     (if 0 < sample_occurrences queryTokens (sample_normalize (excerpt e))
      then [take 40 (excerpt e)] else [summary e])"

definition sample_components :: components where
  "sample_components =
     \<lparr>normalize = sample_normalize,
      scoreEntry = sample_score,
      extractHighlights = sample_highlights,
      fallbackAnswer = js ''No direct match found; try refining the question.'',
      composeTemplate = (\<lambda>query results. concat (map summary results)),
      phrasePrompt = (\<lambda>t. js ''What is '' @ t @ js ''?''),
      maxFollowUps = 3\<rparr>"

definition sample_champerty :: entry where
  "sample_champerty =
     \<lparr>id' = js ''champerty'', title = js ''Champerty'', type' = js ''doctrine'',
      region = js ''Common law'', era = js ''Medieval'',
      summary = js ''Funding a suit for a share.'',
      excerpt = js ''Champerty is a bargain to fund a suit.'',
      keywords' = [js ''maintenance''], citations = [js ''Black 11th''],
      sources = [\<lparr>label = js ''Black'', url = js ''https://example.org/c''\<rparr>]\<rparr>"

definition sample_maintenance :: entry where
  "sample_maintenance =
     \<lparr>id' = js ''maintenance'', title = js ''Maintenance'', type' = js ''doctrine'',
      region = js ''Common law'', era = js ''Medieval'',
      summary = js ''Meddling in a suit.'',
      excerpt = js ''Akin to champerty.'',
      keywords' = [], citations = [], sources = []\<rparr>"

definition sample_barratry :: entry where
  "sample_barratry =
     \<lparr>id' = js ''barratry'', title = js ''Barratry'', type' = js ''doctrine'',
      region = js ''Common law'', era = js ''Early modern'',
      summary = js ''Stirring up quarrels.'',
      excerpt = js ''Vexatious incitement to litigation.'',
      keywords' = [], citations = [], sources = []\<rparr>"

definition sample_blue_law :: entry where
  "sample_blue_law =
     \<lparr>id' = js ''blue-law'', title = js ''Blue law'', type' = js ''statute'',
      region = js ''United States'', era = js ''Colonial'',
      summary = js ''Sunday trading ban.'',
      excerpt = js ''A statute restricting Sunday trade.'',
      keywords' = [js ''sunday''], citations = [], sources = []\<rparr>"

definition sample_kb :: "entry list" where
  "sample_kb = [sample_champerty, sample_maintenance, sample_barratry, sample_blue_law]"

definition sample_lib :: "unit legalSearch" where
  "sample_lib = legalSearch_spec sample_components sample_kb"

definition sample_now :: jsstring where
  "sample_now = js ''2025-01-01T00:00:00.000Z''"

section \<open>Reading the payload\<close>

lemma payload_question_Inl: "payload_question p = Inl e \<longleftrightarrow> p = JNull"
  by (cases p) (simp_all, cases e, simp)

lemma payload_question_Inr: "payload_question p = Inr x \<Longrightarrow> p \<noteq> JNull"
  by auto

lemma optional_trim_throws:
  "optional_trim x = Inl e \<longleftrightarrow> (\<exists>v. x = Some v \<and> v \<noteq> JNull \<and> (\<forall>s. v \<noteq> JStr s))"
  by (cases x rule: optional_trim.cases) (simp_all, (cases e, simp)+)

text \<open>The five kinds of parsed body the handler tells apart.\<close>

lemma payload_cases:
  obtains (null) "p = JNull"
  | (absent) "payload_question p = Inr None"
  | (null_question) "payload_question p = Inr (Some JNull)"
  | (string) s where "payload_question p = Inr (Some (JStr s))"
  | (other) v where "payload_question p = Inr (Some v)" "v \<noteq> JNull" "\<forall>s. v \<noteq> JStr s"
proof (cases "payload_question p")
  case (Inl e)
  then show ?thesis using null by (simp add: payload_question_Inl)
next
  case (Inr x)
  show ?thesis
  proof (cases x)
    case None
    with Inr show ?thesis using absent by simp
  next
    case (Some v)
    with Inr show ?thesis using null_question string other by (cases v) auto
  qed
qed

section \<open>Trimming\<close>

lemma trim_prefix:
  "dropWhile isWhiteSpace s =
     trim s @ rev (takeWhile isWhiteSpace (rev (dropWhile isWhiteSpace s)))"
proof -
  have "rev (dropWhile isWhiteSpace s) =
      takeWhile isWhiteSpace (rev (dropWhile isWhiteSpace s)) @
      dropWhile isWhiteSpace (rev (dropWhile isWhiteSpace s))"
    by simp
  then have "rev (rev (dropWhile isWhiteSpace s)) =
      rev (dropWhile isWhiteSpace (rev (dropWhile isWhiteSpace s))) @
      rev (takeWhile isWhiteSpace (rev (dropWhile isWhiteSpace s)))"
    by (metis rev_append)
  then show ?thesis by (simp add: trim_def)
qed

lemma trim_no_leading: "dropWhile isWhiteSpace (trim s) = trim s"
proof (cases "trim s")
  case Nil
  then show ?thesis by simp
next
  case (Cons x xs)
  with trim_prefix [of s] obtain zs where t: "dropWhile isWhiteSpace s = x # zs"
    by simp
  have "\<not> isWhiteSpace (hd (dropWhile isWhiteSpace s))"
    by (rule hd_dropWhile) (simp add: t)
  then have "\<not> isWhiteSpace x"
    by (simp add: t)
  with Cons show ?thesis by simp
qed

lemma trim_no_trailing: "dropWhile isWhiteSpace (rev (trim s)) = rev (trim s)"
  by (simp add: trim_def)

lemma trim_trim: "trim (trim s) = trim s"
proof -
  have "trim (trim s) = rev (dropWhile isWhiteSpace (rev (trim s)))"
    unfolding trim_def [of "trim s"] by (simp only: trim_no_leading)
  then show ?thesis by (simp only: trim_no_trailing rev_rev_ident)
qed

section \<open>The ways through the handler\<close>

lemma POST_proceeds:
  assumes "payload_question p = Inr (Some (JStr s))" and "trim s \<noteq> []"
  shows "POST lib now (Parsed p) =
           \<lparr>outcome = Responded 200 (JObj
              [(js ''answer'',
                  JStr (answer (buildAnswer lib (trim s) (retrieveLegalKnowledge lib (trim s) 5)))),
               (js ''results'', JArr (map result_json (retrieveLegalKnowledge lib (trim s) 5))),
               (js ''followUps'',
                  JArr (map JStr
                    (followUps (buildAnswer lib (trim s) (retrieveLegalKnowledge lib (trim s) 5))))),
               (js ''timestamp'', JStr now)]),
            calls = [RetrieveLegalKnowledge (trim s) 5,
                     BuildAnswer (trim s) (retrieveLegalKnowledge lib (trim s) 5)]\<rparr>"
  using assms by (simp add: POST_def Let_def)

lemma POST_rejects:
  assumes "payload_question p = Inr x"
    and "x = None \<or> x = Some JNull \<or> (\<exists>s. x = Some (JStr s) \<and> trim s = [])"
  shows "POST lib now (Parsed p) = bad_request ''Question is required''"
  using assms by (auto simp: POST_def)

lemma POST_throws:
  assumes "p = JNull \<or>
    (\<exists>v. payload_question p = Inr (Some v) \<and> v \<noteq> JNull \<and> (\<forall>s. v \<noteq> JStr s))"
  shows "POST lib now (Parsed p) = \<lparr>outcome = Threw TypeError, calls = []\<rparr>"
proof -
  from assms consider "p = JNull"
    | v where "payload_question p = Inr (Some v)" "v \<noteq> JNull" "\<forall>s. v \<noteq> JStr s"
    by blast
  then show ?thesis
  proof cases
    case 1
    then show ?thesis by (simp add: POST_def)
  next
    case 2
    then have "optional_trim (Some v) = Inl TypeError"
      by (simp add: optional_trim_throws)
    with 2 show ?thesis by (simp add: POST_def)
  qed
qed

text \<open>
  Every request takes exactly one of four ways: the first \<open>return\<close>, the second
  \<open>return\<close>, the final \<open>return\<close>, or an exception raised while the question is read.
\<close>

lemma POST_cases:
  obtains (invalid_json) "request = Unparseable"
      "POST lib now request = bad_request ''Invalid JSON payload''"
  | (required) p x where "request = Parsed p" "payload_question p = Inr x"
      "x = None \<or> x = Some JNull \<or> (\<exists>s. x = Some (JStr s) \<and> trim s = [])"
      "POST lib now request = bad_request ''Question is required''"
  | (proceeds) p s where "request = Parsed p" "payload_question p = Inr (Some (JStr s))"
      "trim s \<noteq> []"
      "POST lib now request =
         \<lparr>outcome = Responded 200 (JObj
            [(js ''answer'',
                JStr (answer (buildAnswer lib (trim s) (retrieveLegalKnowledge lib (trim s) 5)))),
             (js ''results'', JArr (map result_json (retrieveLegalKnowledge lib (trim s) 5))),
             (js ''followUps'',
                JArr (map JStr
                  (followUps (buildAnswer lib (trim s) (retrieveLegalKnowledge lib (trim s) 5))))),
             (js ''timestamp'', JStr now)]),
          calls = [RetrieveLegalKnowledge (trim s) 5,
                   BuildAnswer (trim s) (retrieveLegalKnowledge lib (trim s) 5)]\<rparr>"
  | (throws) p where "request = Parsed p"
      "p = JNull \<or>
         (\<exists>v. payload_question p = Inr (Some v) \<and> v \<noteq> JNull \<and> (\<forall>s. v \<noteq> JStr s))"
      "POST lib now request = \<lparr>outcome = Threw TypeError, calls = []\<rparr>"
proof (cases request)
  case Unparseable
  then show ?thesis using invalid_json by (simp add: POST_def)
next
  case (Parsed p)
  show ?thesis
  proof (cases p rule: payload_cases)
    case null
    with Parsed show ?thesis using throws POST_throws [of p lib now] by simp
  next
    case absent
    with Parsed show ?thesis using required POST_rejects [of p None lib now] by simp
  next
    case null_question
    with Parsed show ?thesis using required POST_rejects [of p "Some JNull" lib now] by simp
  next
    case (string s)
    show ?thesis
    proof (cases "trim s = []")
      case True
      with string Parsed show ?thesis
        using required POST_rejects [of p "Some (JStr s)" lib now] by simp
    next
      case False
      with string Parsed show ?thesis
        using proceeds POST_proceeds [of p s lib now] by simp
    qed
  next
    case (other v)
    with Parsed show ?thesis using throws POST_throws [of p lib now] by blast
  qed
qed

lemma POST_calls_cases:
  "calls (POST lib now request) = [] \<or>
   (\<exists>p s. request = Parsed p \<and> payload_question p = Inr (Some (JStr s)) \<and> trim s \<noteq> [] \<and>
      calls (POST lib now request) =
        [RetrieveLegalKnowledge (trim s) 5,
         BuildAnswer (trim s) (retrieveLegalKnowledge lib (trim s) 5)])"
  by (cases rule: POST_cases [of request lib now]) (auto simp: bad_request_def)

lemma POST_limit:
  "call \<in> set (calls (POST lib now request)) \<Longrightarrow> call = RetrieveLegalKnowledge q n \<Longrightarrow> n = 5"
  using POST_calls_cases [of lib now request] by auto

lemma result_json_keys:
  "\<exists>members. result_json r = JObj members \<and>
     map fst members = map js [''id'', ''title'', ''summary'', ''excerpt'', ''citations'',
       ''sources'', ''score'', ''highlights'', ''region'', ''era'', ''type'']"
  by (simp add: result_json_def)

section \<open>Status of the response\<close>

text \<open>
  Claim C1, as amended. For every POST request the handler responds with status 400
  and a body of the form \<open>{ error: string }\<close> exactly when the body is unparseable
  JSON, or the parsed body is not \<open>null\<close> and its \<open>question\<close> is absent, \<open>null\<close>, or a
  string that is empty after trimming; it responds with status 200 exactly when
  \<open>question\<close> is a string that is not empty after trimming. In the remaining cases
  (the body is \<open>null\<close>, or \<open>question\<close> is neither a string nor \<open>null\<close>) no response
  is returned: a TypeError leaves the handler. There is no fourth outcome.
\<close>

theorem POST_status:
  "((\<exists>m. outcome (POST lib now request) = Responded 400 (JObj [(js ''error'', JStr m)])) \<longleftrightarrow>
      (request = Unparseable \<or>
       (\<exists>p. request = Parsed p \<and>
          (payload_question p = Inr None \<or> payload_question p = Inr (Some JNull) \<or>
           (\<exists>s. payload_question p = Inr (Some (JStr s)) \<and> trim s = [])))))
   \<and> ((\<exists>doc. outcome (POST lib now request) = Responded 200 doc) \<longleftrightarrow>
      (\<exists>p s. request = Parsed p \<and> payload_question p = Inr (Some (JStr s)) \<and> trim s \<noteq> []))
   \<and> (outcome (POST lib now request) = Threw TypeError \<longleftrightarrow>
      (\<exists>p. request = Parsed p \<and>
         (p = JNull \<or>
          (\<exists>v. payload_question p = Inr (Some v) \<and> v \<noteq> JNull \<and> (\<forall>s. v \<noteq> JStr s)))))
   \<and> ((\<exists>m. outcome (POST lib now request) = Responded 400 (JObj [(js ''error'', JStr m)]))
      \<or> (\<exists>doc. outcome (POST lib now request) = Responded 200 doc)
      \<or> outcome (POST lib now request) = Threw TypeError)"
proof (cases rule: POST_cases [of request lib now])
  case invalid_json
  then show ?thesis by (simp add: bad_request_def)
next
  case (required p x)
  then show ?thesis by (auto simp: bad_request_def dest: payload_question_Inr)
next
  case (proceeds p s)
  then show ?thesis by (auto dest: payload_question_Inr)
next
  case (throws p)
  then show ?thesis by auto
qed

section \<open>Evaluating the instance\<close>

lemmas sample_text_defs =
  sample_normalize_def sample_words_def sample_occurrences_def
  toLowerCase_def toLowerCaseUnit_def isUpperLetter_def js_def isWhiteSpace_def

lemmas sample_entry_defs =
  sample_champerty_def sample_maintenance_def sample_barratry_def sample_blue_law_def

lemma make_result_sel [simp]:
  "score (make_result e s hs) = s"
  "highlights (make_result e s hs) = hs"
  "id' (make_result e s hs) = id' e"
  "title (make_result e s hs) = title e"
  "type' (make_result e s hs) = type' e"
  "region (make_result e s hs) = region e"
  "era (make_result e s hs) = era e"
  by (simp_all add: make_result_def entry.defs result.defs)

lemma sample_lib_retrieve:
  "retrieveLegalKnowledge sample_lib = retrieveLegalKnowledge_spec sample_components sample_kb"
  by (simp add: sample_lib_def legalSearch_spec_def)

lemma sample_payload:
  "payload_question (JObj [(js ''question'', JStr s)]) = Inr (Some (JStr s))"
  by simp

lemma sample_blank: "trim (js ''   '') = []"
  by (simp add: js_def trim_def isWhiteSpace_def)

lemma sample_trim: "trim (js '' champerty '') = js ''champerty''"
  by (simp add: js_def trim_def isWhiteSpace_def)

lemma sample_nonblank: "trim (js '' champerty '') \<noteq> []"
  by (simp add: js_def trim_def isWhiteSpace_def)

lemmas sample_request =
  POST_proceeds [OF sample_payload sample_nonblank, unfolded sample_trim]

lemma sample_query_tokens: "sample_normalize (js ''champerty'') = [js ''champerty'']"
  by (simp add: sample_text_defs)

lemma sample_scores:
  "sample_score [js ''champerty''] sample_champerty = 5"
  "sample_score [js ''champerty''] sample_maintenance = 1"
  "sample_score [js ''champerty''] sample_barratry = 0"
  "sample_score [js ''champerty''] sample_blue_law = 0"
  by (simp_all add: sample_score_def sample_entry_defs sample_text_defs)

lemma sample_rank:
  "rank [(sample_champerty, 5), (sample_maintenance, 1), (sample_barratry, 0),
         (sample_blue_law, 0)] 5 = [(sample_champerty, 5), (sample_maintenance, 1)]"
  by (simp add: rank_def)

lemma sample_rank_one:
  "rank [(sample_champerty, 5), (sample_maintenance, 1), (sample_barratry, 0),
         (sample_blue_law, 0)] (Suc 0) = [(sample_champerty, 5)]"
  by (simp add: rank_def)

lemma sample_retrieve:
  "retrieveLegalKnowledge_spec sample_components sample_kb (js ''champerty'') 5 =
     [make_result sample_champerty 5 (sample_highlights [js ''champerty''] sample_champerty),
      make_result sample_maintenance 1 (sample_highlights [js ''champerty''] sample_maintenance)]"
  by (simp add: retrieveLegalKnowledge_spec_def sample_components_def sample_kb_def
      sample_query_tokens sample_scores sample_rank Let_def)

lemma sample_retrieve_one:
  "retrieveLegalKnowledge_spec sample_components sample_kb (js ''champerty'') (Suc 0) =
     [make_result sample_champerty 5 (sample_highlights [js ''champerty''] sample_champerty)]"
  by (simp add: retrieveLegalKnowledge_spec_def sample_components_def sample_kb_def
      sample_query_tokens sample_scores sample_rank_one Let_def)


section \<open>Claim C1: witness and counterexample\<close>

text \<open>
  A body whose \<open>question\<close> is blank is answered with status 400, one whose
  \<open>question\<close> is \<open>" champerty "\<close> with status 200.
\<close>

theorem POST_status_witness:
  "(\<exists>m. outcome (POST sample_lib sample_now
            (Parsed (JObj [(js ''question'', JStr (js ''   ''))]))) =
          Responded 400 (JObj [(js ''error'', JStr m)]))
   \<and> (\<exists>doc. outcome (POST sample_lib sample_now
            (Parsed (JObj [(js ''question'', JStr (js '' champerty ''))]))) =
          Responded 200 doc)"
proof -
  have "\<exists>m. outcome (POST sample_lib sample_now
            (Parsed (JObj [(js ''question'', JStr (js ''   ''))]))) =
          Responded 400 (JObj [(js ''error'', JStr m)])"
    using POST_status [of sample_lib sample_now
        "Parsed (JObj [(js ''question'', JStr (js ''   ''))])"] sample_blank
    by simp
  moreover have "\<exists>doc. outcome (POST sample_lib sample_now
            (Parsed (JObj [(js ''question'', JStr (js '' champerty ''))]))) =
          Responded 200 doc"
    using POST_status [of sample_lib sample_now
        "Parsed (JObj [(js ''question'', JStr (js '' champerty ''))])"] sample_nonblank
    by simp
  ultimately show ?thesis by simp
qed

text \<open>
  The claim as first stated fails on the body \<open>{"question": 5}\<close>: it is parseable, it
  has a \<open>question\<close> that is neither missing nor empty, and yet no response with status
  200 is produced, because a number has no \<open>trim\<close>.
\<close>

theorem POST_numeric_question:
  "payload_question (JObj [(js ''question'', JNum 5)]) = Inr (Some (JNum 5))
   \<and> outcome (POST sample_lib sample_now (Parsed (JObj [(js ''question'', JNum 5)]))) =
       Threw TypeError"
  by (simp add: POST_def)

section \<open>Shape of a successful response\<close>

text \<open>
  Claim C2. For every well-formed POST request (a parseable JSON body whose
  \<open>question\<close> is a string that is not empty after trimming) the handler responds
  with status 200 and a JSON object with exactly the keys \<open>answer\<close>, \<open>results\<close>,
  \<open>followUps\<close> and \<open>timestamp\<close>, where \<open>results\<close> is an array of objects, each with
  exactly the fields \<open>id\<close>, \<open>title\<close>, \<open>summary\<close>, \<open>excerpt\<close>, \<open>citations\<close>,
  \<open>sources\<close>, \<open>score\<close>, \<open>highlights\<close>, \<open>region\<close>, \<open>era\<close> and \<open>type\<close>.
\<close>

theorem POST_success_shape:
  assumes "payload_question p = Inr (Some (JStr s))" and "trim s \<noteq> []"
  shows "\<exists>a rs f. outcome (POST lib now (Parsed p)) = Responded 200 (JObj
             [(js ''answer'', JStr a), (js ''results'', JArr rs),
              (js ''followUps'', JArr (map JStr f)), (js ''timestamp'', JStr now)])
           \<and> (\<forall>r \<in> set rs. \<exists>members. r = JObj members \<and>
                 map fst members = map js [''id'', ''title'', ''summary'', ''excerpt'',
                   ''citations'', ''sources'', ''score'', ''highlights'', ''region'', ''era'',
                   ''type''])"
proof -
  let ?rs = "retrieveLegalKnowledge lib (trim s) 5"
  have "\<forall>r \<in> set (map result_json ?rs). \<exists>members. r = JObj members \<and>
          map fst members = map js [''id'', ''title'', ''summary'', ''excerpt'',
            ''citations'', ''sources'', ''score'', ''highlights'', ''region'', ''era'',
            ''type'']"
    using result_json_keys by auto
  then show ?thesis
    unfolding POST_proceeds [OF assms, of lib now] by (simp only: handled.simps) blast
qed

text \<open>
  On the instance, the question \<open>" champerty "\<close> is answered with two results, each
  with the eleven keys.
\<close>

theorem POST_success_shape_witness:
  "\<exists>a rs f. outcome (POST sample_lib sample_now
        (Parsed (JObj [(js ''question'', JStr (js '' champerty ''))]))) =
      Responded 200 (JObj
        [(js ''answer'', JStr a), (js ''results'', JArr rs),
         (js ''followUps'', JArr (map JStr f)), (js ''timestamp'', JStr sample_now)])
    \<and> length rs = 2
    \<and> list_all (\<lambda>r. \<exists>members. r = JObj members \<and>
          map fst members = map js [''id'', ''title'', ''summary'', ''excerpt'',
            ''citations'', ''sources'', ''score'', ''highlights'', ''region'', ''era'',
            ''type'']) rs"
proof -
  from POST_success_shape [OF sample_payload sample_nonblank, of sample_lib sample_now]
  obtain a rs f where shape: "outcome (POST sample_lib sample_now
        (Parsed (JObj [(js ''question'', JStr (js '' champerty ''))]))) =
      Responded 200 (JObj
        [(js ''answer'', JStr a), (js ''results'', JArr rs),
         (js ''followUps'', JArr (map JStr f)), (js ''timestamp'', JStr sample_now)])"
    and keys: "\<forall>r \<in> set rs. \<exists>members. r = JObj members \<and>
          map fst members = map js [''id'', ''title'', ''summary'', ''excerpt'',
            ''citations'', ''sources'', ''score'', ''highlights'', ''region'', ''era'',
            ''type'']"
    by blast
  from shape have "rs = map result_json (retrieveLegalKnowledge sample_lib (js ''champerty'') 5)"
    by (simp add: sample_request)
  then have "length rs = 2"
    by (simp add: sample_lib_retrieve sample_retrieve)
  with shape keys show ?thesis
    unfolding list_all_iff by blast
qed

section \<open>Only the projected fields are serialised\<close>

text \<open>
  Claim C9. For every successful POST request, each serialised result object holds
  only the eleven projected fields (\<open>id\<close>, \<open>title\<close>, \<open>summary\<close>, \<open>excerpt\<close>,
  \<open>citations\<close>, \<open>sources\<close>, \<open>score\<close>, \<open>highlights\<close>, \<open>region\<close>, \<open>era\<close>, \<open>type\<close>):
  the \<open>results\<close> array is the projection of what the core returned, a projected object
  has these eleven keys, and two Result values that agree on the eleven fields are
  serialised alike, whatever else they carry (\<open>keywords\<close>, or any further field).
\<close>

theorem POST_projects_eleven_fields:
  fixes lib :: "'a legalSearch" and r :: "'b result_scheme" and r' :: "'c result_scheme"
  assumes "outcome (POST lib now request) = Responded 200 doc"
  shows "(\<exists>q a f. doc = JObj
            [(js ''answer'', a),
             (js ''results'', JArr (map result_json (retrieveLegalKnowledge lib q 5))),
             (js ''followUps'', f), (js ''timestamp'', JStr now)])
         \<and> (\<exists>members. result_json r = JObj members \<and>
               map fst members = map js [''id'', ''title'', ''summary'', ''excerpt'',
                 ''citations'', ''sources'', ''score'', ''highlights'', ''region'', ''era'',
                 ''type''])
         \<and> (id' r' = id' r \<and> title r' = title r \<and> summary r' = summary r \<and>
             excerpt r' = excerpt r \<and> citations r' = citations r \<and> sources r' = sources r \<and>
             score r' = score r \<and> highlights r' = highlights r \<and> region r' = region r \<and>
             era r' = era r \<and> type' r' = type' r
             \<longrightarrow> result_json r' = result_json r)"
proof -
  have "\<exists>q a f. doc = JObj
            [(js ''answer'', a),
             (js ''results'', JArr (map result_json (retrieveLegalKnowledge lib q 5))),
             (js ''followUps'', f), (js ''timestamp'', JStr now)]"
    using assms
    by (cases rule: POST_cases [of request lib now]) (auto simp: bad_request_def)
  then show ?thesis
    using result_json_keys [of r] by (simp add: result_json_def)
qed

text \<open>
  On the instance: the response to \<open>" champerty "\<close>, and a Result with other keywords
  and one more field, serialised like the Result without them.
\<close>

theorem POST_projects_eleven_fields_witness:
  "outcome (POST sample_lib sample_now
      (Parsed (JObj [(js ''question'', JStr (js '' champerty ''))]))) =
     Responded 200 (JObj
       [(js ''answer'', JStr (answer (buildAnswer sample_lib (js ''champerty'')
            (retrieveLegalKnowledge sample_lib (js ''champerty'') 5)))),
        (js ''results'',
           JArr (map result_json (retrieveLegalKnowledge sample_lib (js ''champerty'') 5))),
        (js ''followUps'', JArr (map JStr (followUps (buildAnswer sample_lib (js ''champerty'')
            (retrieveLegalKnowledge sample_lib (js ''champerty'') 5))))),
        (js ''timestamp'', JStr sample_now)])
   \<and> result_json
        (result.extend ((make_result sample_champerty 5 [])\<lparr>keywords' := [js ''internal'']\<rparr>)
           (7 :: nat))
       = result_json (make_result sample_champerty 5 [])"
proof -
  have ok: "outcome (POST sample_lib sample_now
      (Parsed (JObj [(js ''question'', JStr (js '' champerty ''))]))) =
     Responded 200 (JObj
       [(js ''answer'', JStr (answer (buildAnswer sample_lib (js ''champerty'')
            (retrieveLegalKnowledge sample_lib (js ''champerty'') 5)))),
        (js ''results'',
           JArr (map result_json (retrieveLegalKnowledge sample_lib (js ''champerty'') 5))),
        (js ''followUps'', JArr (map JStr (followUps (buildAnswer sample_lib (js ''champerty'')
            (retrieveLegalKnowledge sample_lib (js ''champerty'') 5))))),
        (js ''timestamp'', JStr sample_now)])"
    by (simp add: sample_request)
  from POST_projects_eleven_fields [OF ok, of "make_result sample_champerty 5 []"
      "result.extend ((make_result sample_champerty 5 [])\<lparr>keywords' := [js ''internal'']\<rparr>)
           (7 :: nat)"]
  have "result_json
        (result.extend ((make_result sample_champerty 5 [])\<lparr>keywords' := [js ''internal'']\<rparr>)
           (7 :: nat))
       = result_json (make_result sample_champerty 5 [])"
    by (simp add: result.defs entry.defs make_result_def)
  with ok show ?thesis by simp
qed

section \<open>The question handed to the core\<close>

text \<open>
  Claim C10. For every request that reaches the core, the handler passes one and the
  same string to \<open>retrieveLegalKnowledge\<close> and to \<open>buildAnswer\<close>: the request's
  \<open>question\<close> after trimming, which is not empty and which trimming leaves unchanged.
\<close>

theorem POST_passes_trimmed_question:
  assumes "calls (POST lib now request) \<noteq> []"
  shows "\<exists>p s. request = Parsed p \<and> payload_question p = Inr (Some (JStr s)) \<and>
           trim s \<noteq> [] \<and> trim (trim s) = trim s \<and>
           calls (POST lib now request) =
             [RetrieveLegalKnowledge (trim s) 5,
              BuildAnswer (trim s) (retrieveLegalKnowledge lib (trim s) 5)]"
  using assms POST_calls_cases [of lib now request] by (auto simp: trim_trim)

theorem POST_passes_trimmed_question_witness:
  "calls (POST sample_lib sample_now
      (Parsed (JObj [(js ''question'', JStr (js '' champerty ''))]))) =
     [RetrieveLegalKnowledge (js ''champerty'') 5,
      BuildAnswer (js ''champerty'') (retrieveLegalKnowledge sample_lib (js ''champerty'') 5)]
   \<and> js ''champerty'' \<noteq> []
   \<and> trim (js ''champerty'') = js ''champerty''"
proof -
  have "calls (POST sample_lib sample_now
      (Parsed (JObj [(js ''question'', JStr (js '' champerty ''))]))) \<noteq> []"
    by (simp add: sample_request)
  from POST_passes_trimmed_question [OF this]
  show ?thesis by (simp add: sample_trim)
qed

section \<open>The core, from the specification: ranking\<close>

lemma length_rank: "length (rank scored limit) \<le> limit"
  by (simp add: rank_def)

lemma rank_positive: "(e, s) \<in> set (rank scored limit) \<Longrightarrow> 0 < s"
  by (auto simp: rank_def dest: in_set_takeD)

text \<open>
  Claim C3. For every query string \<open>q\<close> and every limit \<open>n\<close>,
  \<open>retrieveLegalKnowledge(q, n)\<close> returns at most \<open>n\<close> results, every returned result
  has a score strictly greater than 0, and the handler always invokes it with limit 5.
  The first two parts are about the core as the specification describes it; the third
  is about the handler, whatever the core is.
\<close>

theorem retrieve_cardinality:
  "length (retrieveLegalKnowledge_spec c kb q n) \<le> n
   \<and> (\<forall>r \<in> set (retrieveLegalKnowledge_spec c kb q n). 0 < score r)
   \<and> (\<forall>call \<in> set (calls (POST lib now request)).
         \<forall>q' n'. call = RetrieveLegalKnowledge q' n' \<longrightarrow> n' = 5)"
proof (intro conjI)
  show "length (retrieveLegalKnowledge_spec c kb q n) \<le> n"
    by (simp add: retrieveLegalKnowledge_spec_def Let_def length_rank)
  show "\<forall>r \<in> set (retrieveLegalKnowledge_spec c kb q n). 0 < score r"
    by (auto simp: retrieveLegalKnowledge_spec_def Let_def dest: rank_positive)
  show "\<forall>call \<in> set (calls (POST lib now request)).
         \<forall>q' n'. call = RetrieveLegalKnowledge q' n' \<longrightarrow> n' = 5"
    using POST_limit by blast
qed

text \<open>
  On the instance two entries match \<open>champerty\<close>, with scores 5 and 1; limit 1 keeps
  the first; the handler asks for 5.
\<close>

theorem retrieve_cardinality_witness:
  "length (retrieveLegalKnowledge_spec sample_components sample_kb (js ''champerty'') 1) = 1
   \<and> list_all (\<lambda>r. 0 < score r)
       (retrieveLegalKnowledge_spec sample_components sample_kb (js ''champerty'') 1)
   \<and> map score (retrieveLegalKnowledge_spec sample_components sample_kb (js ''champerty'') 5)
       = [5, 1]
   \<and> list_all (\<lambda>call. case call of RetrieveLegalKnowledge q n \<Rightarrow> n = 5
                               | BuildAnswer q rs \<Rightarrow> True)
       (calls (POST sample_lib sample_now
          (Parsed (JObj [(js ''question'', JStr (js '' champerty ''))]))))
   \<and> calls (POST sample_lib sample_now
          (Parsed (JObj [(js ''question'', JStr (js '' champerty ''))]))) \<noteq> []"
proof -
  note inst = retrieve_cardinality [of sample_components sample_kb "js ''champerty''" 1
      sample_lib sample_now "Parsed (JObj [(js ''question'', JStr (js '' champerty ''))])"]
  have "list_all (\<lambda>r. 0 < score r)
       (retrieveLegalKnowledge_spec sample_components sample_kb (js ''champerty'') 1)"
    using inst by (simp add: list_all_iff)
  moreover have "list_all (\<lambda>call. case call of RetrieveLegalKnowledge q n \<Rightarrow> n = 5
                               | BuildAnswer q rs \<Rightarrow> True)
       (calls (POST sample_lib sample_now
          (Parsed (JObj [(js ''question'', JStr (js '' champerty ''))]))))"
    using inst by (auto simp: list_all_iff split: core_call.splits)
  moreover have "calls (POST sample_lib sample_now
          (Parsed (JObj [(js ''question'', JStr (js '' champerty ''))]))) \<noteq> []"
    by (simp add: sample_request)
  ultimately show ?thesis
    by (simp add: sample_retrieve_one sample_retrieve)
qed

section \<open>The core, from the specification: follow-up suggestions\<close>







end
